theory Spec2Isabelle
  imports Complex_Main
begin

section \<open>Values, errors and the objects handed to the helpers\<close>

text \<open>
  Numeric data (labels, predictions, residuals) are real numbers: rounding is not
  modelled. Statistics that the libraries document as possibly undefined (a p-value, a
  correlation coefficient) are \<open>py_float\<close>: a real number or NaN. Every ordering
  comparison with NaN is false, as in Python.
\<close>

datatype py_float = Num real | NaN

definition float_lt :: "py_float \<Rightarrow> py_float \<Rightarrow> bool" where
  "float_lt a b = (case a of NaN \<Rightarrow> False | Num x \<Rightarrow> (case b of NaN \<Rightarrow> False | Num y \<Rightarrow> x < y))"

definition float_gt :: "py_float \<Rightarrow> py_float \<Rightarrow> bool" where
  "float_gt a b = (case a of NaN \<Rightarrow> False | Num x \<Rightarrow> (case b of NaN \<Rightarrow> False | Num y \<Rightarrow> x > y))"

definition float_ge :: "py_float \<Rightarrow> py_float \<Rightarrow> bool" where
  "float_ge a b = (case a of NaN \<Rightarrow> False | Num x \<Rightarrow> (case b of NaN \<Rightarrow> False | Num y \<Rightarrow> x \<ge> y))"

text \<open>
  An exception raised inside a callee that is not part of \<open>helper.py\<close> (a library
  function, the model's own \<open>predict\<close>, a helper defined elsewhere) is described by a
  string and reaches the caller as \<open>Propagated\<close>; the exceptions that \<open>helper.py\<close>
  raises itself keep their Python class and message.
\<close>

type_synonym exn = string

datatype error = ValueError string | AttributeError string | Propagated exn

definition call :: "exn + 'a \<Rightarrow> error + 'a" where
  "call r = (case r of Inl e \<Rightarrow> Inl (Propagated e) | Inr v \<Rightarrow> Inr v)"

text \<open>
  A model object: the classes it is an instance of (what \<open>isinstance\<close> inspects), its
  \<open>predict\<close> method when it has one (what \<open>hasattr(model, 'predict')\<close> inspects), and the
  \<open>f_pvalue\<close> attribute read from an OLS results wrapper. The feature matrix is only ever
  handed on to callees, so its type \<open>'f\<close> is left open.
\<close>

datatype py_class = LinearRegression | RegressionResultsWrapper | Ridge | Lasso
  | LogisticRegression | OtherClass string

record 'f model =
  mro :: "py_class set"
  predict :: "('f \<Rightarrow> exn + real list) option"
  f_pvalue :: py_float

definition isinstance :: "'f model \<Rightarrow> py_class list \<Rightarrow> bool" where
  "isinstance m cs = list_ex (\<lambda>c. c \<in> mro m) cs"

text \<open>What the assumption checkers return: \<open>True\<close> or a string.\<close>

datatype py_result = PyTrue | PyStr string

datatype has_constant = Skip | Add

text \<open>
  The callees that \<open>helper.py\<close> uses and does not define. The first seven are library
  functions (statsmodels, pandas, scikit-learn, and the matplotlib/seaborn rendering of
  each plot, taken as one call); the last four are helpers that \<open>helper.py\<close>
  calls and does not define. All are parameters of the model; each may raise, except
  \<open>add_constant\<close>, which returns the matrix with or without a new constant column.
\<close>

record 'f externals =
  add_constant :: "has_constant \<Rightarrow> 'f \<Rightarrow> 'f"
  corr :: "'f \<Rightarrow> exn + py_float list list"
  normal_ad :: "real list \<Rightarrow> exn + (py_float \<times> py_float)"
  r2_score :: "real list \<Rightarrow> real list \<Rightarrow> exn + py_float"
  plot_linear :: "real list \<Rightarrow> real list \<Rightarrow> exn + unit"
  plot_residuals :: "real list \<Rightarrow> exn + unit"
  plot_heatmap :: "py_float list list \<Rightarrow> exn + unit"
  independence_of_errors_assumption ::
    "'f model \<Rightarrow> 'f \<Rightarrow> real list \<Rightarrow> bool \<Rightarrow> exn + (string option \<times> py_float)"
  equal_variance_assumption ::
    "'f model \<Rightarrow> 'f \<Rightarrow> real list \<Rightarrow> py_float \<Rightarrow> bool \<Rightarrow> exn + (string \<times> py_float)"
  are_assumptions_satisfied_ridge_lasso ::
    "'f model \<Rightarrow> 'f \<Rightarrow> real list \<Rightarrow> py_float \<Rightarrow> exn + py_result"
  are_assumptions_satisfied_logistic ::
    "'f model \<Rightarrow> 'f \<Rightarrow> real list \<Rightarrow> py_float \<Rightarrow> exn + py_result"

section \<open>Missing values\<close>

text \<open>
  A data frame: its number of rows and its named columns, in order. A cell is
  \<open>None\<close> when \<open>isna\<close> holds of it. In a data frame every column has one cell per row.
\<close>

record 'a data_frame =
  nrows :: nat
  columns :: "(string \<times> 'a option list) list"

definition wf_frame :: "'a data_frame \<Rightarrow> bool" where
  "wf_frame df = list_all (\<lambda>c. length (snd c) = nrows df) (columns df)"

definition isna_sum :: "'a data_frame \<Rightarrow> (string \<times> nat) list" where
  "isna_sum df = map (\<lambda>c. (fst c, length (filter (\<lambda>v. v = None) (snd c)))) (columns df)"

text \<open>The result has one row per kept column: its name, \<open>N missing\<close> and \<open>% missing\<close>.\<close>

definition check_for_missing_values :: "'a data_frame \<Rightarrow> (string \<times> nat \<times> real) list" where
  "check_for_missing_values df =
     (let missing_values = isna_sum df;
          non_zero_missing = filter (\<lambda>c. snd c \<noteq> 0) missing_values;
          non_zero_missing_percentage =
            map (\<lambda>c. (fst c, (real (snd c) / real (nrows df)) * 100)) non_zero_missing
      in map2 (\<lambda>c p. (fst c, snd c, snd p)) non_zero_missing non_zero_missing_percentage)"

section \<open>Evaluation metrics\<close>

text \<open>
  \<open>labels - y_pred\<close> on one-dimensional arrays: elementwise when the lengths agree, an
  array of length one is broadcast, any other pair of lengths raises.
\<close>

definition np_sub :: "real list \<Rightarrow> real list \<Rightarrow> error + real list" where
  "np_sub a b =
     (if length a = length b then Inr (map2 (\<lambda>x y. x - y) a b)
      else if length b = 1 then Inr (map (\<lambda>x. x - hd b) a)
      else if length a = 1 then Inr (map (\<lambda>y. hd a - y) b)
      else Inl (ValueError ''operands could not be broadcast together''))"

definition get_sse :: "'f externals \<Rightarrow> 'f model \<Rightarrow> 'f \<Rightarrow> real list \<Rightarrow> error + real" where
  "get_sse ext model features labels =
     (case predict model of
        Some model_predict \<Rightarrow>
          (let features = (if isinstance model [RegressionResultsWrapper]
                           then add_constant ext Add features else features)
           in case call (model_predict features) of
                Inl e \<Rightarrow> Inl e
              | Inr y_pred \<Rightarrow>
                  (case np_sub labels y_pred of
                     Inl e \<Rightarrow> Inl e
                   | Inr d \<Rightarrow> Inr (sum_list (map (\<lambda>x. x ^ 2) d))))
      | None \<Rightarrow> Inl (ValueError ''Unsupported model type for SSE calculation.''))"

definition get_rsquared :: "'f externals \<Rightarrow> 'f model \<Rightarrow> 'f \<Rightarrow> real list \<Rightarrow> error + py_float" where
  "get_rsquared ext model features labels =
     (case predict model of
        Some model_predict \<Rightarrow>
          (let features = (if isinstance model [RegressionResultsWrapper]
                           then add_constant ext Add features else features)
           in case call (model_predict features) of
                Inl e \<Rightarrow> Inl e
              | Inr y_pred \<Rightarrow> call (r2_score ext labels y_pred))
      | None \<Rightarrow> Inl (ValueError (''Unsupported model type for R'' @ [CHR 0xC2, CHR 0xB2]
                                @ '' calculation.'')))"

section \<open>Assumption checks\<close>

text \<open>
  The frame built by \<open>calculate_residuals\<close>, column by column. Building a frame from
  columns of different lengths raises. A model without \<open>predict\<close> raises on the
  attribute access.
\<close>

record results =
  Actual :: "real list"
  Predicted :: "real list"
  Residuals :: "real list"

definition calculate_residuals :: "'f model \<Rightarrow> 'f \<Rightarrow> real list \<Rightarrow> error + results" where
  "calculate_residuals model features labels =
     (case predict model of
        None \<Rightarrow> Inl (AttributeError ''predict'')
      | Some model_predict \<Rightarrow>
          (case call (model_predict features) of
             Inl e \<Rightarrow> Inl e
           | Inr y_pred \<Rightarrow>
               if length y_pred \<noteq> length labels
               then Inl (ValueError ''All arrays must be of the same length'')
               else Inr \<lparr>Actual = labels, Predicted = y_pred,
                         Residuals = map2 (\<lambda>a p. \<bar>a\<bar> - \<bar>p\<bar>) labels y_pred\<rparr>))"

text \<open>
  \<open>calculate_residuals\<close> once more, with the interpreter state made explicit: the
  model's \<open>predict\<close> may read and change the state \<open>'s\<close> (a model that is refitted
  between calls, a counter of calls), and the function returns its result together with
  the state it leaves behind.
\<close>

record ('s, 'f) stateful_model =
  predict_st :: "('s \<Rightarrow> 'f \<Rightarrow> (exn + real list) \<times> 's) option"

definition calculate_residuals_st ::
  "('s, 'f) stateful_model \<Rightarrow> 'f \<Rightarrow> real list \<Rightarrow> 's \<Rightarrow> (error + results) \<times> 's" where
  "calculate_residuals_st model features labels s =
     (case predict_st model of
        None \<Rightarrow> (Inl (AttributeError ''predict''), s)
      | Some model_predict \<Rightarrow>
          (let r = model_predict s features
           in (case call (fst r) of
                 Inl e \<Rightarrow> Inl e
               | Inr y_pred \<Rightarrow>
                   if length y_pred \<noteq> length labels
                   then Inl (ValueError ''All arrays must be of the same length'')
                   else Inr \<lparr>Actual = labels, Predicted = y_pred,
                             Residuals = map2 (\<lambda>a p. \<bar>a\<bar> - \<bar>p\<bar>) labels y_pred\<rparr>,
               snd r)))"

definition linear_assumption ::
  "'f externals \<Rightarrow> 'f model \<Rightarrow> 'f \<Rightarrow> real list \<Rightarrow> py_float \<Rightarrow> bool
     \<Rightarrow> error + (bool \<times> py_float option)" where
  "linear_assumption ext model features labels p_value_thresh plot =
     (case calculate_residuals model features labels of
        Inl e \<Rightarrow> Inl e
      | Inr df_results \<Rightarrow>
          (let y_pred = Predicted df_results
           in case (if plot then call (plot_linear ext labels y_pred) else Inr ()) of
                Inl e \<Rightarrow> Inl e
              | Inr u \<Rightarrow>
                  if isinstance model [RegressionResultsWrapper]
                  then (let p_value = f_pvalue model;
                            is_linearity_found = float_lt p_value p_value_thresh
                        in Inr (is_linearity_found, Some p_value))
                  else Inr (True, None)))"

definition normality_of_errors_assumption ::
  "'f externals \<Rightarrow> 'f model \<Rightarrow> 'f \<Rightarrow> real list \<Rightarrow> py_float \<Rightarrow> bool
     \<Rightarrow> error + (string \<times> py_float)" where
  "normality_of_errors_assumption ext model features label p_value_thresh plot =
     (case calculate_residuals model features label of
        Inl e \<Rightarrow> Inl e
      | Inr df_results \<Rightarrow>
          (case (if plot then call (plot_residuals ext (Residuals df_results)) else Inr ()) of
             Inl e \<Rightarrow> Inl e
           | Inr u \<Rightarrow>
               (case call (normal_ad ext (Residuals df_results)) of
                  Inl e \<Rightarrow> Inl e
                | Inr ad \<Rightarrow>
                    (let p_value = snd ad;
                         dist_type = (if float_ge p_value p_value_thresh
                                      then ''normal'' else ''non-normal'')
                     in Inr (dist_type, p_value)))))"

text \<open>
  \<open>np.fill_diagonal\<close> on a matrix given by its rows: entry \<open>i\<close> of row \<open>i\<close> is
  overwritten where the row has one. The source overwrites the diagonal of the
  correlation matrix in place, through \<open>.values\<close>, before it compares the entries.
\<close>

definition fill_diagonal :: "'a list list \<Rightarrow> 'a \<Rightarrow> 'a list list" where
  "fill_diagonal m v = map (\<lambda>ir. (snd ir)[fst ir := v]) (enumerate 0 m)"

definition any_any :: "('a \<Rightarrow> bool) \<Rightarrow> 'a list list \<Rightarrow> bool" where
  "any_any P m = list_ex (\<lambda>row. list_ex P row) m"

definition perfect_collinearity_assumption :: "'f externals \<Rightarrow> 'f \<Rightarrow> bool \<Rightarrow> error + bool" where
  "perfect_collinearity_assumption ext features plot =
     (case call (corr ext features) of
        Inl e \<Rightarrow> Inl e
      | Inr correlation_matrix \<Rightarrow>
          (case (if plot then call (plot_heatmap ext correlation_matrix) else Inr ()) of
             Inl e \<Rightarrow> Inl e
           | Inr u \<Rightarrow>
               (let correlation_matrix = fill_diagonal correlation_matrix NaN;
                    pos_perfect_collinearity =
                      any_any (\<lambda>x. float_gt x (Num (999 / 1000))) correlation_matrix;
                    neg_perfect_collinearity =
                      any_any (\<lambda>x. float_lt x (Num (- (999 / 1000)))) correlation_matrix;
                    has_perfect_collinearity =
                      (pos_perfect_collinearity \<or> neg_perfect_collinearity)
                in Inr has_perfect_collinearity)))"

definition are_assumptions_satisfied_linear ::
  "'f externals \<Rightarrow> 'f model \<Rightarrow> 'f \<Rightarrow> real list \<Rightarrow> py_float \<Rightarrow> error + py_result" where
  "are_assumptions_satisfied_linear ext model features labels p_value_thresh =
     (let x_with_const = add_constant ext Skip features
      in case linear_assumption ext model x_with_const labels p_value_thresh False of
           Inl e \<Rightarrow> Inl e
         | Inr lin \<Rightarrow>
      (case call (independence_of_errors_assumption ext model x_with_const labels False) of
           Inl e \<Rightarrow> Inl e
         | Inr ind \<Rightarrow>
      (case normality_of_errors_assumption ext model x_with_const labels p_value_thresh False of
           Inl e \<Rightarrow> Inl e
         | Inr nrm \<Rightarrow>
      (case call (equal_variance_assumption ext model x_with_const labels p_value_thresh False) of
           Inl e \<Rightarrow> Inl e
         | Inr eqv \<Rightarrow>
      (case perfect_collinearity_assumption ext features False of
           Inl e \<Rightarrow> Inl e
         | Inr has_perfect_collinearity \<Rightarrow>
      (let is_linearity_found = fst lin;
           autocorrelation = fst ind;
           n_dist_type = fst nrm;
           e_dist_type = fst eqv
       in if \<not> is_linearity_found
          then Inr (PyStr ''Linearity assumption is not satisfied.'')
          else if autocorrelation \<noteq> None
          then Inr (PyStr
            ''Independence of errors (no autocorrelation) assumption is not satisfied.'')
          else if n_dist_type \<noteq> ''normal''
          then Inr (PyStr
            (''Normality of errors assumption is not satisfied. Distribution type: ''
               @ n_dist_type))
          else if e_dist_type \<noteq> ''equal''
          then Inr (PyStr
            (''Equal variance (homoscedasticity) assumption is not satisfied. Distribution type: ''
               @ e_dist_type))
          else if has_perfect_collinearity
          then Inr (PyStr ''Perfect collinearity assumption is not satisfied.'')
          else Inr PyTrue))))))"

definition check_model_assumptions ::
  "'f externals \<Rightarrow> 'f model \<Rightarrow> 'f \<Rightarrow> real list \<Rightarrow> py_float \<Rightarrow> error + py_result" where
  "check_model_assumptions ext model features labels p_value_thresh =
     (if isinstance model [LinearRegression, RegressionResultsWrapper]
      then are_assumptions_satisfied_linear ext model features labels p_value_thresh
      else if isinstance model [Ridge, Lasso]
      then call (are_assumptions_satisfied_ridge_lasso ext model features labels p_value_thresh)
      else if isinstance model [LogisticRegression]
      then call (are_assumptions_satisfied_logistic ext model features labels p_value_thresh)
      else Inr (PyStr ''Model type not supported for assumption checks.''))"

section \<open>Notions used to state the properties\<close>

text \<open>
  Which callee \<open>check_model_assumptions\<close> hands the model to: the same chain of
  \<open>isinstance\<close> tests, with the name of the branch in place of the call.
\<close>

datatype callee = Linear_path | Ridge_lasso_path | Logistic_path | Unsupported_result

definition route :: "'f model \<Rightarrow> callee" where
  "route model =
     (if isinstance model [LinearRegression, RegressionResultsWrapper] then Linear_path
      else if isinstance model [Ridge, Lasso] then Ridge_lasso_path
      else if isinstance model [LogisticRegression] then Logistic_path
      else Unsupported_result)"


text \<open>The exception a call ends with, if any, and the first one of a sequence of calls.\<close>

definition raised :: "error + 'a \<Rightarrow> error option" where
  "raised r = (case r of Inl e \<Rightarrow> Some e | Inr v \<Rightarrow> None)"


text \<open>The two errors that the metrics raise for a model without \<open>predict\<close>.\<close>

definition sse_unsupported :: error where
  "sse_unsupported = ValueError ''Unsupported model type for SSE calculation.''"

definition rsquared_unsupported :: error where
  "rsquared_unsupported =
     ValueError (''Unsupported model type for R'' @ [CHR 0xC2, CHR 0xB2] @ '' calculation.'')"

text \<open>
  The correlation matrix as pandas computes it with the defaults of \<open>DataFrame.corr\<close>
  (Pearson, at least one observation), for feature columns without missing cells and in
  exact arithmetic: the coefficient of two columns is their co-deviation sum divided by
  the square root of the product of their squared-deviation sums, and NaN when there is
  no row or when that divisor is zero, as it is for a constant column.
\<close>

definition mean :: "real list \<Rightarrow> real" where
  "mean xs = sum_list xs / real (length xs)"

definition pearson :: "real list \<Rightarrow> real list \<Rightarrow> py_float" where
  "pearson xs ys =
     (let nobs = min (length xs) (length ys);
          meanx = mean xs;
          meany = mean ys;
          ssqdm_x = sum_list (map (\<lambda>x. (x - meanx) * (x - meanx)) xs);
          ssqdm_y = sum_list (map (\<lambda>y. (y - meany) * (y - meany)) ys);
          covxy = sum_list (map2 (\<lambda>x y. (x - meanx) * (y - meany)) xs ys);
          divisor = sqrt (ssqdm_x * ssqdm_y)
      in if nobs < 1 then NaN
         else if divisor \<noteq> 0 then Num (covxy / divisor)
         else NaN)"

definition pearson_matrix :: "real list list \<Rightarrow> py_float list list" where
  "pearson_matrix cols = map (\<lambda>x. map (\<lambda>y. pearson x y) cols) cols"

definition pandas_corr :: "real list list \<Rightarrow> exn + py_float list list" where
  "pandas_corr cols = Inr (pearson_matrix cols)"

section \<open>Sample inputs\<close>

text \<open>
  Feature matrices are lists of columns here. \<open>sample_ext\<close> has callees that always
  return; \<open>pandas_ext\<close> computes the correlation matrix as above; \<open>no_frame_ext\<close> is
  handed features that have no \<open>corr\<close> method.
\<close>

definition sample_ext :: "real list list externals" where
  "sample_ext =
     \<lparr>add_constant = (\<lambda>h f. replicate (case f of [] \<Rightarrow> 0 | c # cs \<Rightarrow> length c) 1 # f),
      corr = (\<lambda>f. Inr (map (\<lambda>x. map (\<lambda>y. Num (if x = y then 1 else 0)) f) f)),
      normal_ad = (\<lambda>r. Inr (Num (3 / 10), Num (1 / 2))),
      r2_score = (\<lambda>y p. Inr (Num (9 / 10))),
      plot_linear = (\<lambda>y p. Inr ()),
      plot_residuals = (\<lambda>r. Inr ()),
      plot_heatmap = (\<lambda>m. Inr ()),
      independence_of_errors_assumption = (\<lambda>m f y plot. Inr (None, Num 2)),
      equal_variance_assumption = (\<lambda>m f y t plot. Inr (''equal'', Num (1 / 2))),
      are_assumptions_satisfied_ridge_lasso = (\<lambda>m f y t. Inr PyTrue),
      are_assumptions_satisfied_logistic = (\<lambda>m f y t. Inr PyTrue)\<rparr>"

definition pandas_ext :: "real list list externals" where
  "pandas_ext = sample_ext\<lparr>corr := pandas_corr\<rparr>"


definition fitted :: "py_class \<Rightarrow> real list list model" where
  "fitted c = \<lparr>mro = {c}, predict = Some (\<lambda>f. Inr [1, 2, 4]), f_pvalue = NaN\<rparr>"

definition unfitted :: "real list list model" where
  "unfitted = \<lparr>mro = {LinearRegression}, predict = Some (\<lambda>f. Inl ''NotFittedError''),
               f_pvalue = NaN\<rparr>"

definition no_predict :: "real list list model" where
  "no_predict = \<lparr>mro = {OtherClass ''KMeans''}, predict = None, f_pvalue = NaN\<rparr>"

definition fitted_ols :: "real list list model" where
  "fitted_ols =
     \<lparr>mro = {RegressionResultsWrapper}, predict = Some (\<lambda>f. Inr [1, 2, 4]),
      f_pvalue = Num (1 / 100)\<rparr>"

definition constant_only_ols :: "real list list model" where
  "constant_only_ols =
     \<lparr>mro = {RegressionResultsWrapper}, predict = Some (\<lambda>f. Inr [2, 2, 2]), f_pvalue = NaN\<rparr>"

definition two_predictions :: "real list list model" where
  "two_predictions = \<lparr>mro = {Ridge}, predict = Some (\<lambda>f. Inr [1, 2]), f_pvalue = NaN\<rparr>"

definition refitted :: "(nat, real list list) stateful_model" where
  "refitted = \<lparr>predict_st = Some (\<lambda>s f. (Inr (map (\<lambda>x. x + real s) [1, 2, 4]), Suc s))\<rparr>"

definition frame_1 :: "nat data_frame" where
  "frame_1 = \<lparr>nrows = 4,
     columns = [(''Age'', [Some 30, None, Some 28, Some 41]),
                (''BMI'', [Some 22, Some 25, Some 19, Some 27]),
                (''FSH'', [None, None, Some 5, None])]\<rparr>"

section \<open>The five checks of a linear model\<close>

lemma raised_simps [simp]: "raised (Inl e) = Some e" "raised (Inr v) = None"
  by (simp_all add: raised_def)

lemma sample_residuals:
  "predict m = Some (\<lambda>f. Inr [1, 2, 4]) \<Longrightarrow>
   calculate_residuals m x [1, 2, 3]
     = Inr \<lparr>Actual = [1, 2, 3], Predicted = [1, 2, 4], Residuals = [0, 0, - 1]\<rparr>"
  by (simp add: calculate_residuals_def call_def)

lemma sample_collinearity:
  "perfect_collinearity_assumption sample_ext [[0, 1, 2]] False = Inr False"
  by (simp add: perfect_collinearity_assumption_def sample_ext_def call_def
      fill_diagonal_def enumerate_eq_zip any_any_def float_gt_def float_lt_def)



section \<open>Dispatch on the model type\<close>

lemma check_model_assumptions_route:
  "check_model_assumptions ext model features labels t =
     (case route model of
        Linear_path \<Rightarrow> are_assumptions_satisfied_linear ext model features labels t
      | Ridge_lasso_path \<Rightarrow>
          call (are_assumptions_satisfied_ridge_lasso ext model features labels t)
      | Logistic_path \<Rightarrow> call (are_assumptions_satisfied_logistic ext model features labels t)
      | Unsupported_result \<Rightarrow> Inr (PyStr ''Model type not supported for assumption checks.''))"
  by (simp add: check_model_assumptions_def route_def)

text \<open>
  Claim C2, as stated, fails: a Ridge model and a Lasso model are handed to the same
  callee, \<open>are_assumptions_satisfied_ridge_lasso\<close>, so the four model types do not take
  four distinct paths.
\<close>

theorem dispatch_counterexample:
  "\<not> distinct [route (fitted Ridge), route (fitted Lasso), route (fitted LinearRegression),
                route (fitted LogisticRegression)]
   \<and> check_model_assumptions sample_ext (fitted Ridge) [[0, 1, 2]] [1, 2, 3] (Num (1 / 20))
       = call (are_assumptions_satisfied_ridge_lasso sample_ext (fitted Ridge)
                 [[0, 1, 2]] [1, 2, 3] (Num (1 / 20)))
   \<and> check_model_assumptions sample_ext (fitted Lasso) [[0, 1, 2]] [1, 2, 3] (Num (1 / 20))
       = call (are_assumptions_satisfied_ridge_lasso sample_ext (fitted Lasso)
                 [[0, 1, 2]] [1, 2, 3] (Num (1 / 20)))"
  by (simp add: route_def check_model_assumptions_def isinstance_def fitted_def)

text \<open>
  Claim C2, amended. A Ridge model and a Lasso model are both routed to the ridge/lasso
  path, a plain linear-regression model to the linear path and a logistic-regression
  model to the logistic path: three distinct paths for the four model types. A model is
  of one of these types when that class is the only one of the five supported classes
  it is an instance of.
\<close>

theorem dispatch_three_paths:
  assumes "mro ridge \<inter> {LinearRegression, RegressionResultsWrapper, Ridge, Lasso,
                           LogisticRegression} = {Ridge}"
    and "mro lasso \<inter> {LinearRegression, RegressionResultsWrapper, Ridge, Lasso,
                         LogisticRegression} = {Lasso}"
    and "mro ols \<inter> {LinearRegression, RegressionResultsWrapper, Ridge, Lasso,
                       LogisticRegression} = {LinearRegression}"
    and "mro logistic \<inter> {LinearRegression, RegressionResultsWrapper, Ridge, Lasso,
                            LogisticRegression} = {LogisticRegression}"
  shows "route ridge = Ridge_lasso_path \<and> route lasso = Ridge_lasso_path
         \<and> route ols = Linear_path \<and> route logistic = Logistic_path
         \<and> distinct [route ridge, route ols, route logistic]
         \<and> check_model_assumptions ext ridge f y t
             = call (are_assumptions_satisfied_ridge_lasso ext ridge f y t)
         \<and> check_model_assumptions ext lasso f y t
             = call (are_assumptions_satisfied_ridge_lasso ext lasso f y t)
         \<and> check_model_assumptions ext ols f y t
             = are_assumptions_satisfied_linear ext ols f y t
         \<and> check_model_assumptions ext logistic f y t
             = call (are_assumptions_satisfied_logistic ext logistic f y t)"
proof -
  have r: "route ridge = Ridge_lasso_path"
    using assms(1) by (auto simp: route_def isinstance_def)
  have l: "route lasso = Ridge_lasso_path"
    using assms(2) by (auto simp: route_def isinstance_def)
  have "route ols = Linear_path"
    using assms(3) by (auto simp: route_def isinstance_def)
  moreover have "route logistic = Logistic_path"
    using assms(4) by (auto simp: route_def isinstance_def)
  ultimately show ?thesis
    using r l by (simp add: check_model_assumptions_route)
qed

theorem dispatch_three_paths_witness:
  "mro (fitted Ridge) \<inter> {LinearRegression, RegressionResultsWrapper, Ridge, Lasso,
                            LogisticRegression} = {Ridge}
   \<and> mro (fitted Lasso) \<inter> {LinearRegression, RegressionResultsWrapper, Ridge, Lasso,
                              LogisticRegression} = {Lasso}
   \<and> mro (fitted LinearRegression) \<inter> {LinearRegression, RegressionResultsWrapper, Ridge,
                                         Lasso, LogisticRegression} = {LinearRegression}
   \<and> mro (fitted LogisticRegression) \<inter> {LinearRegression, RegressionResultsWrapper, Ridge,
                                           Lasso, LogisticRegression} = {LogisticRegression}
   \<and> route (fitted Ridge) = Ridge_lasso_path \<and> route (fitted Lasso) = Ridge_lasso_path
   \<and> route (fitted LinearRegression) = Linear_path
   \<and> route (fitted LogisticRegression) = Logistic_path
   \<and> check_model_assumptions sample_ext (fitted Lasso) [[0, 1, 2]] [1, 2, 3] (Num (1 / 20))
       = Inr PyTrue"
proof -
  have m: "mro (fitted c) = {c}" for c
    by (simp add: fitted_def)
  have h: "mro (fitted Ridge) \<inter> {LinearRegression, RegressionResultsWrapper, Ridge, Lasso,
                                     LogisticRegression} = {Ridge}"
    "mro (fitted Lasso) \<inter> {LinearRegression, RegressionResultsWrapper, Ridge, Lasso,
                              LogisticRegression} = {Lasso}"
    "mro (fitted LinearRegression) \<inter> {LinearRegression, RegressionResultsWrapper, Ridge,
                                         Lasso, LogisticRegression} = {LinearRegression}"
    "mro (fitted LogisticRegression) \<inter> {LinearRegression, RegressionResultsWrapper, Ridge,
                                           Lasso, LogisticRegression} = {LogisticRegression}"
    by (simp_all add: m)
  have "call (are_assumptions_satisfied_ridge_lasso sample_ext (fitted Lasso) [[0, 1, 2]]
          [1, 2, 3] (Num (1 / 20))) = Inr PyTrue"
    by (simp add: sample_ext_def call_def)
  with dispatch_three_paths [OF h, of sample_ext "[[0, 1, 2]]" "[1, 2, 3]" "Num (1 / 20)"] h
  show ?thesis by simp
qed

section \<open>Sum of squared errors\<close>

lemma sum_list_zip_nth:
  "length ys = length xs \<Longrightarrow>
   sum_list (map f (zip xs ys)) = (\<Sum>i<length xs. (f (xs ! i, ys ! i) :: real))"
  by (simp add: sum_list_sum_nth lessThan_atLeast0)

lemma get_sse_value:
  assumes "predict model = Some p"
    and "p (if isinstance model [RegressionResultsWrapper]
            then add_constant ext Add features else features) = Inr y_pred"
    and "length y_pred = length labels"
  shows "get_sse ext model features labels
           = Inr (\<Sum>i<length labels. (labels ! i - y_pred ! i) ^ 2)"
  using assms
  by (simp add: get_sse_def call_def np_sub_def sum_list_zip_nth)

text \<open>
  Claim C3, as stated, fails: a model can have a \<open>predict\<close> method and still make
  \<open>get_sse\<close> raise instead of returning the sum, when \<open>predict\<close> itself raises (a
  regressor that was never fitted) or when it returns two predictions for three labels.
\<close>

theorem get_sse_counterexample:
  "predict unfitted \<noteq> None
   \<and> get_sse sample_ext unfitted [[0, 1, 2]] [1, 2, 3] = Inl (Propagated ''NotFittedError'')
   \<and> predict two_predictions \<noteq> None
   \<and> get_sse sample_ext two_predictions [[0, 1, 2]] [1, 2, 3]
       = Inl (ValueError ''operands could not be broadcast together'')"
  by (simp add: unfitted_def two_predictions_def get_sse_def call_def isinstance_def np_sub_def)

text \<open>
  Claim C3, amended. For a model with a \<open>predict\<close> method that returns one prediction
  per label (on the features, with the constant column added when the model is an OLS
  results wrapper), \<open>get_sse\<close> returns the sum over the rows of the squared difference
  between label and prediction; for the labels 1, 2, 3 and the predictions 1, 2, 4 it
  returns 1.
\<close>

theorem get_sse_sum_of_squares:
  assumes "predict model = Some p"
    and "p (if isinstance model [RegressionResultsWrapper]
            then add_constant ext Add features else features) = Inr y_pred"
    and "length y_pred = length labels"
  shows "get_sse ext model features labels
           = Inr (\<Sum>i<length labels. (labels ! i - y_pred ! i) ^ 2)
         \<and> (labels = [1, 2, 3] \<and> y_pred = [1, 2, 4]
              \<longrightarrow> get_sse ext model features labels = Inr 1)"
proof
  show "get_sse ext model features labels
          = Inr (\<Sum>i<length labels. (labels ! i - y_pred ! i) ^ 2)"
    using assms by (rule get_sse_value)
  show "labels = [1, 2, 3] \<and> y_pred = [1, 2, 4]
          \<longrightarrow> get_sse ext model features labels = Inr 1"
    using assms(1,2)
    by (auto simp add: get_sse_def call_def np_sub_def)
qed

theorem get_sse_sum_of_squares_witness:
  "predict (fitted Ridge) = Some (\<lambda>f. Inr [1, 2, 4])
   \<and> get_sse sample_ext (fitted Ridge) [[0, 1, 2]] [1, 2, 3] = Inr 1"
proof -
  have p: "predict (fitted Ridge) = Some (\<lambda>f. Inr [1, 2, 4])"
    by (simp add: fitted_def)
  have "get_sse sample_ext (fitted Ridge) [[0, 1, 2]] [1, 2, 3]
          = Inr (\<Sum>i<length [1, 2, 3 :: real]. ([1, 2, 3] ! i - [1, 2, 4] ! i) ^ 2)"
    using get_sse_sum_of_squares [where model = "fitted Ridge" and ext = sample_ext
        and features = "[[0, 1, 2]]" and labels = "[1, 2, 3]" and y_pred = "[1, 2, 4]", OF p]
    by simp
  then show ?thesis
    using p by (simp add: lessThan_Suc numeral_3_eq_3)
qed

section \<open>Residuals\<close>

lemma calculate_residuals_st_frozen:
  assumes "predict_st sm = Some q" and "predict model = Some (\<lambda>f. fst (q s f))"
  shows "calculate_residuals_st sm features labels s
           = (calculate_residuals model features labels, snd (q s features))"
  using assms
  by (simp add: calculate_residuals_st_def calculate_residuals_def Let_def)

lemma calculate_residuals_frame:
  assumes "predict model = Some p" and "p features = Inr y_pred"
    and "length y_pred = length labels"
  shows "calculate_residuals model features labels
           = Inr \<lparr>Actual = labels, Predicted = y_pred,
                   Residuals = map2 (\<lambda>a p. \<bar>a\<bar> - \<bar>p\<bar>) labels y_pred\<rparr>"
  using assms by (simp add: calculate_residuals_def call_def)

text \<open>
  Claim C4, as stated, fails: not every model gives a frame. A model without \<open>predict\<close>
  raises on the attribute access, a model whose \<open>predict\<close> raises passes the exception
  on, and two predictions for three labels cannot be put into one frame.
\<close>

theorem calculate_residuals_counterexample:
  "calculate_residuals no_predict [[0, 1, 2]] [1, 2, 3] = Inl (AttributeError ''predict'')
   \<and> predict unfitted \<noteq> None
   \<and> calculate_residuals unfitted [[0, 1, 2]] [1, 2, 3] = Inl (Propagated ''NotFittedError'')
   \<and> predict two_predictions \<noteq> None
   \<and> calculate_residuals two_predictions [[0, 1, 2]] [1, 2, 3]
       = Inl (ValueError ''All arrays must be of the same length'')"
  by (simp add: no_predict_def unfitted_def two_predictions_def calculate_residuals_def call_def)

text \<open>
  Claim C4, amended. For a model whose \<open>predict\<close> returns one prediction per label,
  \<open>calculate_residuals\<close> returns a frame with one row per label: the labels passed in,
  the predictions, and in each row the residual \<open>\<bar>actual\<bar> - \<bar>predicted\<bar>\<close>. Nothing is
  kept between calls: with the interpreter state made explicit, a call gives what
  \<open>calculate_residuals\<close> gives for \<open>predict\<close> as it behaves in the state of the call,
  and leaves the state that \<open>predict\<close> left; of two calls in a row with the same
  arguments, each invokes \<open>predict\<close> and builds its frame from the predictions of its own
  invocation, also when the second predictions differ from the first.
\<close>

theorem calculate_residuals_rows:
  "(\<forall>p y_pred.
      predict model = Some p \<and> p features = Inr y_pred \<and> length y_pred = length labels
      \<longrightarrow> (\<exists>df. calculate_residuals model features labels = Inr df
             \<and> Actual df = labels \<and> Predicted df = y_pred
             \<and> length (Residuals df) = length labels
             \<and> (\<forall>i<length labels.
                   Residuals df ! i = \<bar>Actual df ! i\<bar> - \<bar>Predicted df ! i\<bar>)))
   \<and> (\<forall>q s. predict_st sm = Some q \<and> predict model = Some (\<lambda>f. fst (q s f))
        \<longrightarrow> calculate_residuals_st sm features labels s
              = (calculate_residuals model features labels, snd (q s features)))
   \<and> (\<forall>q s y1 y2.
        predict_st sm = Some q
        \<and> fst (q s features) = Inr y1 \<and> length y1 = length labels
        \<and> fst (q (snd (q s features)) features) = Inr y2 \<and> length y2 = length labels
        \<longrightarrow> (let first_call = calculate_residuals_st sm features labels s;
                  second_call = calculate_residuals_st sm features labels (snd first_call)
              in snd first_call = snd (q s features)
                 \<and> snd second_call = snd (q (snd (q s features)) features)
                 \<and> fst first_call
                     = Inr \<lparr>Actual = labels, Predicted = y1,
                             Residuals = map2 (\<lambda>a p. \<bar>a\<bar> - \<bar>p\<bar>) labels y1\<rparr>
                 \<and> fst second_call
                     = Inr \<lparr>Actual = labels, Predicted = y2,
                             Residuals = map2 (\<lambda>a p. \<bar>a\<bar> - \<bar>p\<bar>) labels y2\<rparr>))"
proof (intro conjI allI impI)
  fix p y_pred
  assume "predict model = Some p \<and> p features = Inr y_pred \<and> length y_pred = length labels"
  then have "calculate_residuals model features labels
           = Inr \<lparr>Actual = labels, Predicted = y_pred,
                   Residuals = map2 (\<lambda>a p. \<bar>a\<bar> - \<bar>p\<bar>) labels y_pred\<rparr>"
    and "length y_pred = length labels"
    by (simp_all add: calculate_residuals_frame)
  then show "\<exists>df. calculate_residuals model features labels = Inr df
             \<and> Actual df = labels \<and> Predicted df = y_pred
             \<and> length (Residuals df) = length labels
             \<and> (\<forall>i<length labels.
                   Residuals df ! i = \<bar>Actual df ! i\<bar> - \<bar>Predicted df ! i\<bar>)"
    by simp
next
  fix q s
  assume "predict_st sm = Some q \<and> predict model = Some (\<lambda>f. fst (q s f))"
  then show "calculate_residuals_st sm features labels s
              = (calculate_residuals model features labels, snd (q s features))"
    by (simp add: calculate_residuals_st_frozen)
next
  fix q s y1 y2
  assume h: "predict_st sm = Some q
        \<and> fst (q s features) = Inr y1 \<and> length y1 = length labels
        \<and> fst (q (snd (q s features)) features) = Inr y2 \<and> length y2 = length labels"
  then show "let first_call = calculate_residuals_st sm features labels s;
                  second_call = calculate_residuals_st sm features labels (snd first_call)
              in snd first_call = snd (q s features)
                 \<and> snd second_call = snd (q (snd (q s features)) features)
                 \<and> fst first_call
                     = Inr \<lparr>Actual = labels, Predicted = y1,
                             Residuals = map2 (\<lambda>a p. \<bar>a\<bar> - \<bar>p\<bar>) labels y1\<rparr>
                 \<and> fst second_call
                     = Inr \<lparr>Actual = labels, Predicted = y2,
                             Residuals = map2 (\<lambda>a p. \<bar>a\<bar> - \<bar>p\<bar>) labels y2\<rparr>"
    by (simp add: calculate_residuals_st_def call_def Let_def)
qed

theorem calculate_residuals_rows_witness:
  "predict (fitted Ridge) = Some (\<lambda>f. Inr [1, 2, 4])
   \<and> calculate_residuals (fitted Ridge) [[0, 1, 2]] [1, - 2, 3]
       = Inr \<lparr>Actual = [1, - 2, 3], Predicted = [1, 2, 4], Residuals = [0, 0, - 1]\<rparr>
   \<and> calculate_residuals_st refitted [[0, 1, 2]] [1, - 2, 3] 0
       = (Inr \<lparr>Actual = [1, - 2, 3], Predicted = [1, 2, 4], Residuals = [0, 0, - 1]\<rparr>, 1)
   \<and> calculate_residuals_st refitted [[0, 1, 2]] [1, - 2, 3] 1
       = (Inr \<lparr>Actual = [1, - 2, 3], Predicted = [2, 3, 5], Residuals = [- 1, - 1, - 2]\<rparr>, 2)"
proof -
  let ?q = "\<lambda>s (f :: real list list). (Inr (map (\<lambda>x. x + real s) [1, 2, 4]) :: exn + real list, Suc s)"
  have p: "predict (fitted Ridge) = Some (\<lambda>f. Inr [1, 2, 4])"
    by (simp add: fitted_def)
  have q: "predict_st refitted = Some ?q"
    by (simp add: refitted_def)
  note T = calculate_residuals_rows [of "fitted Ridge" "[[0, 1, 2]]" "[1, - 2, 3]" refitted]
  from T [THEN conjunct1, rule_format, of "\<lambda>f. Inr [1, 2, 4]" "[1, 2, 4]"] p
  obtain df where df: "calculate_residuals (fitted Ridge) [[0, 1, 2]] [1, - 2, 3] = Inr df"
    "Actual df = [1, - 2, 3]" "Predicted df = [1, 2, 4]" "length (Residuals df) = 3"
    "\<forall>i<3. Residuals df ! i = \<bar>Actual df ! i\<bar> - \<bar>Predicted df ! i\<bar>"
    by auto
  have "Residuals df ! 0 = 0"
    using df(5) by (simp add: df(2,3))
  moreover have "Residuals df ! Suc 0 = 0"
    using df(5) [rule_format, of "Suc 0"] by (simp add: df(2,3))
  moreover have "Residuals df ! Suc (Suc 0) = - 1"
    using df(5) [rule_format, of "Suc (Suc 0)"] by (simp add: df(2,3))
  ultimately have "Residuals df = [0, 0, - 1]"
    using df(4) by (auto simp: list_eq_iff_nth_eq less_Suc_eq numeral_3_eq_3)
  with df(1,2,3) have a: "calculate_residuals (fitted Ridge) [[0, 1, 2]] [1, - 2, 3]
       = Inr \<lparr>Actual = [1, - 2, 3], Predicted = [1, 2, 4], Residuals = [0, 0, - 1]\<rparr>"
    by simp
  have hyp: "predict_st refitted = Some ?q
        \<and> fst (?q 0 [[0, 1, 2]]) = Inr [1, 2, 4] \<and> length [1, 2, 4 :: real] = length [1, - 2, 3 :: real]
        \<and> fst (?q (snd (?q 0 [[0, 1, 2]])) [[0, 1, 2]]) = Inr [2, 3, 5]
        \<and> length [2, 3, 5 :: real] = length [1, - 2, 3 :: real]"
    by (simp add: q)
  note V = T [THEN conjunct2, THEN conjunct2, rule_format, of ?q 0 "[1, 2, 4]" "[2, 3, 5]",
      unfolded Let_def, OF hyp]
  have s1: "snd (calculate_residuals_st refitted [[0, 1, 2]] [1, - 2, 3] 0) = Suc 0"
    using V [THEN conjunct1] by simp
  have "snd (calculate_residuals_st refitted [[0, 1, 2]] [1, - 2, 3] (Suc 0)) = Suc (Suc 0)"
    using V [THEN conjunct2, THEN conjunct1] unfolding s1 by simp
  moreover
  have "fst (calculate_residuals_st refitted [[0, 1, 2]] [1, - 2, 3] 0)
          = Inr \<lparr>Actual = [1, - 2, 3], Predicted = [1, 2, 4], Residuals = [0, 0, - 1]\<rparr>"
    using V [THEN conjunct2, THEN conjunct2, THEN conjunct1] by simp
  moreover
  have "fst (calculate_residuals_st refitted [[0, 1, 2]] [1, - 2, 3] (Suc 0))
          = Inr \<lparr>Actual = [1, - 2, 3], Predicted = [2, 3, 5], Residuals = [- 1, - 1, - 2]\<rparr>"
    using V [THEN conjunct2, THEN conjunct2, THEN conjunct2] unfolding s1 by simp
  ultimately have "calculate_residuals_st refitted [[0, 1, 2]] [1, - 2, 3] 0
       = (Inr \<lparr>Actual = [1, - 2, 3], Predicted = [1, 2, 4], Residuals = [0, 0, - 1]\<rparr>, 1)"
    "calculate_residuals_st refitted [[0, 1, 2]] [1, - 2, 3] 1
       = (Inr \<lparr>Actual = [1, - 2, 3], Predicted = [2, 3, 5], Residuals = [- 1, - 1, - 2]\<rparr>, 2)"
    using s1 by (simp_all add: prod_eq_iff)
  with a p show ?thesis by simp
qed

section \<open>Linearity\<close>

text \<open>
  Claim C5, as stated, fails: for an OLS results wrapper whose F-test p-value is NaN (as
  for a model with a constant only), \<open>linear_assumption\<close> reports failure although the
  p-value is not greater than or equal to the threshold.
\<close>

theorem linear_assumption_counterexample:
  "isinstance constant_only_ols [RegressionResultsWrapper]
   \<and> linear_assumption sample_ext constant_only_ols [[0, 1, 2]] [1, 2, 3] (Num (1 / 20)) False
       = Inr (False, Some NaN)
   \<and> \<not> float_ge (f_pvalue constant_only_ols) (Num (1 / 20))"
  by (simp add: constant_only_ols_def isinstance_def linear_assumption_def
      calculate_residuals_def call_def float_lt_def float_ge_def)

text \<open>
  Claim C5, amended. When the residuals can be computed (and, if a plot is asked for, it
  is drawn): for an OLS results wrapper \<open>linear_assumption\<close> returns the p-value and
  reports failure exactly when the p-value is not below the threshold, that is, when it
  is greater than or equal to the threshold or when the p-value or the threshold is NaN;
  for any other model it reports the assumption as satisfied and returns no p-value.
\<close>

theorem linear_assumption_decision:
  assumes "calculate_residuals model features labels = Inr df"
    and "plot \<longrightarrow> plot_linear ext labels (Predicted df) = Inr ()"
  shows "(isinstance model [RegressionResultsWrapper] \<longrightarrow>
            linear_assumption ext model features labels t plot
              = Inr (float_lt (f_pvalue model) t, Some (f_pvalue model))
            \<and> (\<not> float_lt (f_pvalue model) t
                 \<longleftrightarrow> float_ge (f_pvalue model) t \<or> f_pvalue model = NaN \<or> t = NaN))
         \<and> (\<not> isinstance model [RegressionResultsWrapper] \<longrightarrow>
              linear_assumption ext model features labels t plot = Inr (True, None))"
  using assms
  by (auto simp: linear_assumption_def call_def float_lt_def float_ge_def Let_def
      split: py_float.splits)

theorem linear_assumption_decision_witness:
  "calculate_residuals fitted_ols [[0, 1, 2]] [1, 2, 3]
     = Inr \<lparr>Actual = [1, 2, 3], Predicted = [1, 2, 4], Residuals = [0, 0, - 1]\<rparr>
   \<and> plot_linear sample_ext [1, 2, 3] [1, 2, 4] = Inr ()
   \<and> isinstance fitted_ols [RegressionResultsWrapper]
   \<and> linear_assumption sample_ext fitted_ols [[0, 1, 2]] [1, 2, 3] (Num (1 / 20)) True
       = Inr (True, Some (Num (1 / 100)))
   \<and> \<not> isinstance (fitted Ridge) [RegressionResultsWrapper]
   \<and> linear_assumption sample_ext (fitted Ridge) [[0, 1, 2]] [1, 2, 3] (Num (1 / 20)) True
       = Inr (True, None)"
proof -
  have r1: "calculate_residuals fitted_ols [[0, 1, 2]] [1, 2, 3]
     = Inr \<lparr>Actual = [1, 2, 3], Predicted = [1, 2, 4], Residuals = [0, 0, - 1]\<rparr>"
    by (simp add: calculate_residuals_def fitted_ols_def call_def)
  have r2: "calculate_residuals (fitted Ridge) [[0, 1, 2]] [1, 2, 3]
     = Inr \<lparr>Actual = [1, 2, 3], Predicted = [1, 2, 4], Residuals = [0, 0, - 1]\<rparr>"
    by (simp add: calculate_residuals_def fitted_def call_def)
  have pl: "plot_linear sample_ext [1, 2, 3] [1, 2, 4] = Inr ()"
    by (simp add: sample_ext_def)
  have i1: "isinstance fitted_ols [RegressionResultsWrapper]"
    by (simp add: isinstance_def fitted_ols_def)
  have i2: "\<not> isinstance (fitted Ridge) [RegressionResultsWrapper]"
    by (simp add: isinstance_def fitted_def)
  have "linear_assumption sample_ext fitted_ols [[0, 1, 2]] [1, 2, 3] (Num (1 / 20)) True
       = Inr (float_lt (f_pvalue fitted_ols) (Num (1 / 20)), Some (f_pvalue fitted_ols))"
    using linear_assumption_decision [OF r1, of True sample_ext "Num (1 / 20)"] pl i1 by simp
  then have "linear_assumption sample_ext fitted_ols [[0, 1, 2]] [1, 2, 3] (Num (1 / 20)) True
       = Inr (True, Some (Num (1 / 100)))"
    by (simp add: fitted_ols_def float_lt_def)
  moreover
  have "linear_assumption sample_ext (fitted Ridge) [[0, 1, 2]] [1, 2, 3] (Num (1 / 20)) True
       = Inr (True, None)"
    using linear_assumption_decision [OF r2, of True sample_ext "Num (1 / 20)"] pl i2 by simp
  ultimately show ?thesis using r1 pl i1 i2 by simp
qed

section \<open>Perfect collinearity\<close>

lemma fill_diagonal_length: "length (fill_diagonal m v) = length m"
  by (simp add: fill_diagonal_def)

lemma fill_diagonal_nth: "i < length m \<Longrightarrow> fill_diagonal m v ! i = (m ! i)[i := v]"
  by (simp add: fill_diagonal_def nth_enumerate_eq)

lemma any_any_nth: "any_any P m \<longleftrightarrow> (\<exists>i<length m. \<exists>j<length (m ! i). P (m ! i ! j))"
  by (simp add: any_any_def list_ex_length)

lemma any_any_fill_diagonal:
  "any_any P (fill_diagonal m v)
     \<longleftrightarrow> (\<exists>i<length m. \<exists>j<length (m ! i). if i = j then P v else P (m ! i ! j))"
proof -
  have "j < length (m ! i) \<Longrightarrow>
          P ((m ! i)[i := v] ! j) \<longleftrightarrow> (if i = j then P v else P (m ! i ! j))" for i j
    by (auto simp: nth_list_update)
  then show ?thesis
    by (simp add: any_any_nth fill_diagonal_length fill_diagonal_nth cong: conj_cong)
qed

lemma exceeds_iff:
  "float_gt x (Num (999 / 1000)) \<or> float_lt x (Num (- (999 / 1000)))
     \<longleftrightarrow> (\<exists>r. x = Num r \<and> \<bar>r\<bar> > 999 / 1000)"
  by (cases x) (auto simp: float_gt_def float_lt_def)

lemma perfect_collinearity_value:
  assumes "corr ext features = Inr cm"
    and "plot \<longrightarrow> plot_heatmap ext cm = Inr ()"
  shows "perfect_collinearity_assumption ext features plot
           = Inr (\<exists>i<length cm. \<exists>j<length (cm ! i).
                    i \<noteq> j \<and> (\<exists>r. cm ! i ! j = Num r \<and> \<bar>r\<bar> > 999 / 1000))"
proof -
  have "(any_any (\<lambda>x. float_gt x (Num (999 / 1000))) (fill_diagonal cm NaN)
         \<or> any_any (\<lambda>x. float_lt x (Num (- (999 / 1000)))) (fill_diagonal cm NaN))
        \<longleftrightarrow> (\<exists>i<length cm. \<exists>j<length (cm ! i).
               i \<noteq> j \<and> (float_gt (cm ! i ! j) (Num (999 / 1000))
                         \<or> float_lt (cm ! i ! j) (Num (- (999 / 1000)))))"
    unfolding any_any_fill_diagonal
    by (auto simp: float_gt_def float_lt_def split: if_splits)
  then show ?thesis
    using assms
    by (simp add: perfect_collinearity_assumption_def call_def Let_def exceeds_iff)
qed

lemma map2_same: "map2 f xs xs = map (\<lambda>x. f x x) xs"
  by (induction xs) simp_all

lemma sum_squares_pos:
  fixes xs :: "real list"
  assumes "a \<in> set xs" and "a \<noteq> c"
  shows "0 < sum_list (map (\<lambda>x. (x - c) * (x - c)) xs)"
  using assms
proof (induction xs)
  case Nil
  then show ?case by simp
next
  case (Cons x xs)
  have nonneg: "0 \<le> sum_list (map (\<lambda>x. (x - c) * (x - c)) xs)"
    by (rule sum_list_nonneg) auto
  show ?case
  proof (cases "a = x")
    case True
    with Cons.prems have "0 < (x - c) * (x - c)"
      by (simp add: power2_eq_square [symmetric])
    with nonneg show ?thesis by simp
  next
    case False
    with Cons have "0 < sum_list (map (\<lambda>x. (x - c) * (x - c)) xs)"
      by simp
    moreover have "0 \<le> (x - c) * (x - c)" by simp
    ultimately show ?thesis by (simp add: add_nonneg_pos)
  qed
qed

lemma pearson_self:
  assumes "a \<in> set xs" and "b \<in> set xs" and "a \<noteq> b"
  shows "pearson xs xs = Num 1"
proof -
  let ?s = "sum_list (map (\<lambda>x. (x - mean xs) * (x - mean xs)) xs)"
  from assms have "a \<noteq> mean xs \<or> b \<noteq> mean xs" by auto
  with assms(1,2) have pos: "0 < ?s"
    using sum_squares_pos [of a xs "mean xs"] sum_squares_pos [of b xs "mean xs"] by auto
  from assms(1) have len: "\<not> length xs < 1"
    by (cases xs) auto
  have "sqrt (?s * ?s) = ?s"
    using pos by simp
  with pos len show ?thesis
    by (simp add: pearson_def Let_def map2_same)
qed

text \<open>
  Claim C6, as stated, fails: for two exactly duplicated columns that are constant, every
  correlation coefficient is NaN, no comparison with 0.999 holds, and
  \<open>perfect_collinearity_assumption\<close> returns false.
\<close>

theorem perfect_collinearity_counterexample:
  "[[1, 1, 1], [1, 1, 1]] ! 0 = [[1, 1, 1], [1, 1, 1 :: real]] ! 1
   \<and> perfect_collinearity_assumption pandas_ext [[1, 1, 1], [1, 1, 1]] False = Inr False"
  by (simp add: perfect_collinearity_assumption_def pandas_ext_def sample_ext_def
      pandas_corr_def pearson_matrix_def pearson_def mean_def call_def fill_diagonal_def
      enumerate_eq_zip any_any_def float_gt_def float_lt_def Let_def)

text \<open>
  Claim C6, amended. When the correlation matrix can be computed (and, if a plot is asked
  for, it is drawn), \<open>perfect_collinearity_assumption\<close> returns true exactly when some
  entry off the diagonal is a number whose absolute value exceeds 0.999. With the
  correlation matrix as pandas computes it, the result is true for a feature matrix with
  two exactly duplicated columns that are not constant.
\<close>

theorem perfect_collinearity_threshold:
  "(\<forall>cm. corr ext features = Inr cm \<and> (plot \<longrightarrow> plot_heatmap ext cm = Inr ())
      \<longrightarrow> perfect_collinearity_assumption ext features plot
            = Inr (\<exists>i<length cm. \<exists>j<length (cm ! i).
                     i \<noteq> j \<and> (\<exists>r. cm ! i ! j = Num r \<and> \<bar>r\<bar> > 999 / 1000)))
   \<and> (\<forall>cols i j a b.
        corr ext' = pandas_corr
        \<and> (plot \<longrightarrow> plot_heatmap ext' (pearson_matrix cols) = Inr ())
        \<and> i < length cols \<and> j < length cols \<and> i \<noteq> j \<and> cols ! i = cols ! j
        \<and> a \<in> set (cols ! i) \<and> b \<in> set (cols ! i) \<and> a \<noteq> b
        \<longrightarrow> perfect_collinearity_assumption ext' cols plot = Inr True)"
proof (intro conjI allI impI)
  fix cm
  assume "corr ext features = Inr cm \<and> (plot \<longrightarrow> plot_heatmap ext cm = Inr ())"
  then have c: "corr ext features = Inr cm" and pl: "plot \<longrightarrow> plot_heatmap ext cm = Inr ()"
    by simp_all
  show "perfect_collinearity_assumption ext features plot
            = Inr (\<exists>i<length cm. \<exists>j<length (cm ! i).
                     i \<noteq> j \<and> (\<exists>r. cm ! i ! j = Num r \<and> \<bar>r\<bar> > 999 / 1000))"
    by (rule perfect_collinearity_value [OF c pl])
next
  fix cols :: "real list list" and i j a b
  let ?cm = "pearson_matrix cols"
  assume h: "corr ext' = pandas_corr
        \<and> (plot \<longrightarrow> plot_heatmap ext' (pearson_matrix cols) = Inr ())
        \<and> i < length cols \<and> j < length cols \<and> i \<noteq> j \<and> cols ! i = cols ! j
        \<and> a \<in> set (cols ! i) \<and> b \<in> set (cols ! i) \<and> a \<noteq> b"
  then have c: "corr ext' cols = Inr ?cm" and pl: "plot \<longrightarrow> plot_heatmap ext' ?cm = Inr ()"
    by (simp_all add: pandas_corr_def)
  from h have eq: "cols ! j = cols ! i" and a: "a \<in> set (cols ! i)"
    and b: "b \<in> set (cols ! i)" and ab: "a \<noteq> b"
    by auto
  have "pearson (cols ! i) (cols ! i) = Num 1"
    by (rule pearson_self [OF a b ab])
  with h eq have "?cm ! i ! j = Num 1"
    by (simp add: pearson_matrix_def)
  with h have "\<exists>i<length ?cm. \<exists>j<length (?cm ! i).
                 i \<noteq> j \<and> (\<exists>r. ?cm ! i ! j = Num r \<and> \<bar>r\<bar> > 999 / 1000)"
    by (intro exI [of _ i] conjI exI [of _ j] exI [of _ 1]) (simp_all add: pearson_matrix_def)
  then show "perfect_collinearity_assumption ext' cols plot = Inr True"
    using perfect_collinearity_value [OF c pl] by simp
qed

theorem perfect_collinearity_threshold_witness:
  "corr pandas_ext = pandas_corr
   \<and> [[1, 2, 4], [0, 1, 0], [1, 2, 4]] ! 0 = [[1, 2, 4], [0, 1, 0], [1, 2, 4 :: real]] ! 2
   \<and> (1 :: real) \<in> set ([[1, 2, 4], [0, 1, 0], [1, 2, 4]] ! 0)
   \<and> (2 :: real) \<in> set ([[1, 2, 4], [0, 1, 0], [1, 2, 4]] ! 0)
   \<and> perfect_collinearity_assumption pandas_ext [[1, 2, 4], [0, 1, 0], [1, 2, 4]] True = Inr True
   \<and> corr sample_ext [[1, 2, 4], [0, 1, 0]] = Inr [[Num 1, Num 0], [Num 0, Num 1]]
   \<and> perfect_collinearity_assumption sample_ext [[1, 2, 4], [0, 1, 0]] True = Inr False"
proof -
  have c: "corr pandas_ext = pandas_corr"
    by (simp add: pandas_ext_def)
  have pl: "plot_heatmap pandas_ext m = Inr ()" "plot_heatmap sample_ext m = Inr ()" for m
    by (simp_all add: pandas_ext_def sample_ext_def)
  have c2: "corr sample_ext [[1, 2, 4], [0, 1, 0]] = Inr [[Num 1, Num 0], [Num 0, Num 1]]"
    by (simp add: sample_ext_def)
  have "perfect_collinearity_assumption pandas_ext [[1, 2, 4], [0, 1, 0], [1, 2, 4]] True
          = Inr True"
    using perfect_collinearity_threshold [THEN conjunct2, rule_format,
        where ext' = pandas_ext and plot = True and cols = "[[1, 2, 4], [0, 1, 0], [1, 2, 4]]"
          and i = 0 and j = 2 and a = 1 and b = 2] c pl
    by simp
  moreover
  have "\<not> (\<exists>i<length [[Num 1, Num 0], [Num 0, Num 1]].
            \<exists>j<length ([[Num 1, Num 0], [Num 0, Num 1]] ! i).
              i \<noteq> j \<and> (\<exists>r. [[Num 1, Num 0], [Num 0, Num 1]] ! i ! j = Num r
                           \<and> \<bar>r\<bar> > 999 / 1000))"
    by (auto simp: less_Suc_eq nth_Cons')
  then have "perfect_collinearity_assumption sample_ext [[1, 2, 4], [0, 1, 0]] True = Inr False"
    using perfect_collinearity_threshold [THEN conjunct1, rule_format,
        where ext = sample_ext and features = "[[1, 2, 4], [0, 1, 0]]"
          and cm = "[[Num 1, Num 0], [Num 0, Num 1]]" and plot = True] c2 pl
    by simp
  ultimately show ?thesis using c c2 by simp
qed

section \<open>Normality of errors\<close>

text \<open>
  Claim C7. When the residuals can be computed and the Anderson-Darling test returns,
  \<open>normality_of_errors_assumption\<close> classifies the residuals as \<open>normal\<close> exactly when
  the p-value of the test is greater than or equal to the threshold and as
  \<open>non-normal\<close> otherwise. When it classifies them as \<open>non-normal\<close> inside
  \<open>are_assumptions_satisfied_linear\<close>, the overall answer is never \<open>True\<close>; and if
  linearity and independence of errors are satisfied and the two later checks return, the
  answer is the reason string of the normality check.
\<close>

theorem normality_of_errors_classification:
  "(\<forall>df ad.
      calculate_residuals model features labels = Inr df
      \<and> (plot \<longrightarrow> plot_residuals ext (Residuals df) = Inr ())
      \<and> normal_ad ext (Residuals df) = Inr ad
      \<longrightarrow> normality_of_errors_assumption ext model features labels t plot
            = Inr (if float_ge (snd ad) t then ''normal'' else ''non-normal'', snd ad))
   \<and> (\<forall>p. normality_of_errors_assumption ext model (add_constant ext Skip features) labels t False
             = Inr (''non-normal'', p)
           \<longrightarrow> are_assumptions_satisfied_linear ext model features labels t \<noteq> Inr PyTrue
             \<and> (\<forall>p1 dw eqv col.
                  linear_assumption ext model (add_constant ext Skip features) labels t False
                    = Inr (True, p1)
                  \<and> independence_of_errors_assumption ext model
                      (add_constant ext Skip features) labels False = Inr (None, dw)
                  \<and> equal_variance_assumption ext model
                      (add_constant ext Skip features) labels t False = Inr eqv
                  \<and> perfect_collinearity_assumption ext features False = Inr col
                  \<longrightarrow> are_assumptions_satisfied_linear ext model features labels t
                        = Inr (PyStr ''Normality of errors assumption is not satisfied. Distribution type: non-normal'')))"
proof (intro conjI allI impI)
  fix df ad
  assume "calculate_residuals model features labels = Inr df
      \<and> (plot \<longrightarrow> plot_residuals ext (Residuals df) = Inr ())
      \<and> normal_ad ext (Residuals df) = Inr ad"
  then show "normality_of_errors_assumption ext model features labels t plot
            = Inr (if float_ge (snd ad) t then ''normal'' else ''non-normal'', snd ad)"
    by (simp add: normality_of_errors_assumption_def call_def Let_def)
next
  fix p
  assume "normality_of_errors_assumption ext model (add_constant ext Skip features) labels t False
             = Inr (''non-normal'', p)"
  then show "are_assumptions_satisfied_linear ext model features labels t \<noteq> Inr PyTrue"
    by (simp add: are_assumptions_satisfied_linear_def Let_def split: sum.splits)
next
  fix p p1 dw eqv col
  assume "normality_of_errors_assumption ext model (add_constant ext Skip features) labels t False
             = Inr (''non-normal'', p)"
    and "linear_assumption ext model (add_constant ext Skip features) labels t False
                    = Inr (True, p1)
                  \<and> independence_of_errors_assumption ext model
                      (add_constant ext Skip features) labels False = Inr (None, dw)
                  \<and> equal_variance_assumption ext model
                      (add_constant ext Skip features) labels t False = Inr eqv
                  \<and> perfect_collinearity_assumption ext features False = Inr col"
  then show "are_assumptions_satisfied_linear ext model features labels t
      = Inr (PyStr ''Normality of errors assumption is not satisfied. Distribution type: non-normal'')"
    by (simp add: are_assumptions_satisfied_linear_def call_def Let_def)
qed

theorem normality_of_errors_classification_witness:
  "calculate_residuals fitted_ols (add_constant sample_ext Skip [[0, 1, 2]]) [1, 2, 3]
     = Inr \<lparr>Actual = [1, 2, 3], Predicted = [1, 2, 4], Residuals = [0, 0, - 1]\<rparr>
   \<and> normal_ad sample_ext [0, 0, - 1] = Inr (Num (3 / 10), Num (1 / 2))
   \<and> normality_of_errors_assumption sample_ext fitted_ols
       (add_constant sample_ext Skip [[0, 1, 2]]) [1, 2, 3] (Num (3 / 5)) False
       = Inr (''non-normal'', Num (1 / 2))
   \<and> linear_assumption sample_ext fitted_ols (add_constant sample_ext Skip [[0, 1, 2]])
       [1, 2, 3] (Num (3 / 5)) False = Inr (True, Some (Num (1 / 100)))
   \<and> independence_of_errors_assumption sample_ext fitted_ols
       (add_constant sample_ext Skip [[0, 1, 2]]) [1, 2, 3] False = Inr (None, Num 2)
   \<and> equal_variance_assumption sample_ext fitted_ols
       (add_constant sample_ext Skip [[0, 1, 2]]) [1, 2, 3] (Num (3 / 5)) False
       = Inr (''equal'', Num (1 / 2))
   \<and> perfect_collinearity_assumption sample_ext [[0, 1, 2]] False = Inr False
   \<and> are_assumptions_satisfied_linear sample_ext fitted_ols [[0, 1, 2]] [1, 2, 3] (Num (3 / 5))
       = Inr (PyStr ''Normality of errors assumption is not satisfied. Distribution type: non-normal'')"
proof -
  let ?x = "add_constant sample_ext Skip [[0, 1, 2]]"
  let ?t = "Num (3 / 5)"
  have p: "predict fitted_ols = Some (\<lambda>f. Inr [1, 2, 4])"
    by (simp add: fitted_ols_def)
  note r = sample_residuals [OF p, of ?x]
  have ad: "normal_ad sample_ext [0, 0, - 1] = Inr (Num (3 / 10), Num (1 / 2))"
    by (simp add: sample_ext_def)
  have "normality_of_errors_assumption sample_ext fitted_ols ?x [1, 2, 3] ?t False
          = Inr (if float_ge (snd (Num (3 / 10), Num (1 / 2))) ?t
                 then ''normal'' else ''non-normal'', snd (Num (3 / 10), Num (1 / 2)))"
    using normality_of_errors_classification [THEN conjunct1, rule_format,
        where model = fitted_ols and features = ?x and labels = "[1, 2, 3]" and plot = False
          and ext = sample_ext and t = ?t and ad = "(Num (3 / 10), Num (1 / 2))"] r ad
    by simp
  then have c3: "normality_of_errors_assumption sample_ext fitted_ols ?x [1, 2, 3] ?t False
          = Inr (''non-normal'', Num (1 / 2))"
    by (simp add: float_ge_def)
  have w: "isinstance fitted_ols [RegressionResultsWrapper]"
    by (simp add: isinstance_def fitted_ols_def)
  have c1: "linear_assumption sample_ext fitted_ols ?x [1, 2, 3] ?t False
              = Inr (True, Some (Num (1 / 100)))"
    using w by (simp add: linear_assumption_def r float_lt_def) (simp add: fitted_ols_def)
  have c2: "independence_of_errors_assumption sample_ext fitted_ols ?x [1, 2, 3] False
              = Inr (None, Num 2)"
    by (simp add: sample_ext_def)
  have c4: "equal_variance_assumption sample_ext fitted_ols ?x [1, 2, 3] ?t False
              = Inr (''equal'', Num (1 / 2))"
    by (simp add: sample_ext_def)
  note c5 = sample_collinearity
  have "are_assumptions_satisfied_linear sample_ext fitted_ols [[0, 1, 2]] [1, 2, 3] ?t
       = Inr (PyStr ''Normality of errors assumption is not satisfied. Distribution type: non-normal'')"
    using normality_of_errors_classification [THEN conjunct2, rule_format,
        where model = fitted_ols and features = "[[0, 1, 2]]" and labels = "[1, 2, 3]"
          and ext = sample_ext and t = ?t and p = "Num (1 / 2)", THEN conjunct2, rule_format,
        where ?p1.0 = "Some (Num (1 / 100))" and dw = "Num 2"
          and eqv = "(''equal'', Num (1 / 2))" and col = False] c1 c2 c3 c4 c5
    by simp
  with r ad c1 c2 c3 c4 c5 show ?thesis by simp
qed

section \<open>Metrics of a model without predict\<close>

lemma call_not_ValueError: "call r \<noteq> Inl (ValueError s)"
  by (cases r) (simp_all add: call_def)

lemma np_sub_not_unsupported: "np_sub a b \<noteq> Inl sse_unsupported"
  by (simp add: np_sub_def sse_unsupported_def)

lemma get_sse_unsupported_iff:
  "get_sse ext model features labels = Inl sse_unsupported \<longleftrightarrow> predict model = None"
proof (cases "predict model")
  case None
  then show ?thesis by (simp add: get_sse_def sse_unsupported_def)
next
  case (Some p)
  let ?f = "if isinstance model [RegressionResultsWrapper]
            then add_constant ext Add features else features"
  show ?thesis
  proof (cases "p ?f")
    case (Inl e)
    with Some show ?thesis
      by (simp add: get_sse_def call_def sse_unsupported_def Let_def)
  next
    case (Inr y_pred)
    with Some np_sub_not_unsupported [of labels y_pred] show ?thesis
      by (cases "np_sub labels y_pred") (simp_all add: get_sse_def call_def Let_def)
  qed
qed

lemma get_rsquared_unsupported_iff:
  "get_rsquared ext model features labels = Inl rsquared_unsupported \<longleftrightarrow> predict model = None"
proof (cases "predict model")
  case None
  then show ?thesis by (simp add: get_rsquared_def rsquared_unsupported_def)
next
  case (Some p)
  let ?f = "if isinstance model [RegressionResultsWrapper]
            then add_constant ext Add features else features"
  show ?thesis
  proof (cases "p ?f")
    case (Inl e)
    with Some show ?thesis
      by (simp add: get_rsquared_def call_def rsquared_unsupported_def Let_def)
  next
    case (Inr y_pred)
    with Some call_not_ValueError [of "r2_score ext labels y_pred"] show ?thesis
      by (simp add: get_rsquared_def rsquared_unsupported_def Let_def) (simp add: call_def)
  qed
qed

text \<open>
  Claim C8, as stated, fails: a model that has a \<open>predict\<close> method which raises (a
  regressor that was never fitted) makes \<open>get_sse\<close> and \<open>get_rsquared\<close> raise instead of
  returning a number.
\<close>

theorem metrics_unsupported_counterexample:
  "predict unfitted \<noteq> None
   \<and> get_sse sample_ext unfitted [[0, 1, 2]] [1, 2, 3] = Inl (Propagated ''NotFittedError'')
   \<and> get_rsquared sample_ext unfitted [[0, 1, 2]] [1, 2, 3] = Inl (Propagated ''NotFittedError'')"
  by (simp add: unfitted_def get_sse_def get_rsquared_def call_def isinstance_def)

text \<open>
  Claim C8, amended. \<open>get_sse\<close> and \<open>get_rsquared\<close> raise their "Unsupported model type"
  error exactly when the model has no \<open>predict\<close> method. When it has one: an exception
  raised by \<open>predict\<close> reaches the caller; and when \<open>predict\<close> returns one prediction per
  label, \<open>get_sse\<close> returns a number and \<open>get_rsquared\<close> returns the number that
  \<open>r2_score\<close> returns.
\<close>

theorem metrics_unsupported_error:
  "(get_sse ext model features labels = Inl sse_unsupported \<longleftrightarrow> predict model = None)
   \<and> (get_rsquared ext model features labels = Inl rsquared_unsupported
        \<longleftrightarrow> predict model = None)
   \<and> (\<forall>p e.
         predict model = Some p
         \<and> p (if isinstance model [RegressionResultsWrapper]
              then add_constant ext Add features else features) = Inl e
         \<longrightarrow> get_sse ext model features labels = Inl (Propagated e)
             \<and> get_rsquared ext model features labels = Inl (Propagated e))
   \<and> (\<forall>p y_pred.
         predict model = Some p
         \<and> p (if isinstance model [RegressionResultsWrapper]
              then add_constant ext Add features else features) = Inr y_pred
         \<and> length y_pred = length labels
         \<longrightarrow> (\<exists>sse. get_sse ext model features labels = Inr sse)
             \<and> (\<forall>r. r2_score ext labels y_pred = Inr r
                    \<longrightarrow> get_rsquared ext model features labels = Inr r))"
proof (intro conjI allI impI)
  show "get_sse ext model features labels = Inl sse_unsupported \<longleftrightarrow> predict model = None"
    by (rule get_sse_unsupported_iff)
  show "get_rsquared ext model features labels = Inl rsquared_unsupported
          \<longleftrightarrow> predict model = None"
    by (rule get_rsquared_unsupported_iff)
next
  fix p e
  assume h: "predict model = Some p
         \<and> p (if isinstance model [RegressionResultsWrapper]
              then add_constant ext Add features else features) = Inl e"
  then show "get_sse ext model features labels = Inl (Propagated e)"
    by (simp add: get_sse_def call_def)
  from h show "get_rsquared ext model features labels = Inl (Propagated e)"
    by (simp add: get_rsquared_def call_def)
next
  fix p y_pred
  assume h: "predict model = Some p
         \<and> p (if isinstance model [RegressionResultsWrapper]
              then add_constant ext Add features else features) = Inr y_pred
         \<and> length y_pred = length labels"
  then show "\<exists>sse. get_sse ext model features labels = Inr sse"
    using get_sse_value [of model p ext features y_pred labels] by simp
next
  fix p y_pred r
  assume h: "predict model = Some p
         \<and> p (if isinstance model [RegressionResultsWrapper]
              then add_constant ext Add features else features) = Inr y_pred
         \<and> length y_pred = length labels"
    and r: "r2_score ext labels y_pred = Inr r"
  then show "get_rsquared ext model features labels = Inr r"
    by (simp add: get_rsquared_def call_def)
qed

theorem metrics_unsupported_error_witness:
  "predict no_predict = None
   \<and> get_sse sample_ext no_predict [[0, 1, 2]] [1, 2, 3] = Inl sse_unsupported
   \<and> get_rsquared sample_ext no_predict [[0, 1, 2]] [1, 2, 3] = Inl rsquared_unsupported
   \<and> predict (fitted Lasso) = Some (\<lambda>f. Inr [1, 2, 4])
   \<and> (\<exists>sse. get_sse sample_ext (fitted Lasso) [[0, 1, 2]] [1, 2, 3] = Inr sse)
   \<and> get_rsquared sample_ext (fitted Lasso) [[0, 1, 2]] [1, 2, 3] = Inr (Num (9 / 10))"
proof -
  have n: "predict no_predict = None"
    by (simp add: no_predict_def)
  have p: "predict (fitted Lasso) = Some (\<lambda>f. Inr [1, 2, 4])"
    by (simp add: fitted_def)
  have r: "r2_score sample_ext [1, 2, 3] [1, 2, 4] = Inr (Num (9 / 10))"
    by (simp add: sample_ext_def)
  from metrics_unsupported_error [of sample_ext no_predict "[[0, 1, 2]]" "[1, 2, 3]"] n
  have "get_sse sample_ext no_predict [[0, 1, 2]] [1, 2, 3] = Inl sse_unsupported"
    "get_rsquared sample_ext no_predict [[0, 1, 2]] [1, 2, 3] = Inl rsquared_unsupported"
    by simp_all
  moreover
  from metrics_unsupported_error [of sample_ext "fitted Lasso" "[[0, 1, 2]]" "[1, 2, 3]"] p r
  have "\<exists>sse. get_sse sample_ext (fitted Lasso) [[0, 1, 2]] [1, 2, 3] = Inr sse"
    "get_rsquared sample_ext (fitted Lasso) [[0, 1, 2]] [1, 2, 3] = Inr (Num (9 / 10))"
    by simp_all
  ultimately show ?thesis using n p by simp
qed

section \<open>Unsupported model types\<close>

text \<open>
  Claim C9. For a model that is an instance of none of \<open>LinearRegression\<close>,
  \<open>RegressionResultsWrapper\<close>, \<open>Ridge\<close>, \<open>Lasso\<close> and \<open>LogisticRegression\<close>,
  \<open>check_model_assumptions\<close> returns the string
  "Model type not supported for assumption checks." and raises nothing, whatever the
  callees would do.
\<close>

theorem check_model_assumptions_unsupported:
  assumes "mro model \<inter> {LinearRegression, RegressionResultsWrapper, Ridge, Lasso,
                            LogisticRegression} = {}"
  shows "check_model_assumptions ext model features labels p_value_thresh
           = Inr (PyStr ''Model type not supported for assumption checks.'')"
  using assms by (simp add: check_model_assumptions_def isinstance_def)

theorem check_model_assumptions_unsupported_witness:
  "mro no_predict \<inter> {LinearRegression, RegressionResultsWrapper, Ridge, Lasso,
                        LogisticRegression} = {}
   \<and> check_model_assumptions sample_ext no_predict [[0, 1, 2]] [1, 2, 3] (Num (1 / 20))
       = Inr (PyStr ''Model type not supported for assumption checks.'')"
proof -
  have h: "mro no_predict \<inter> {LinearRegression, RegressionResultsWrapper, Ridge, Lasso,
                               LogisticRegression} = {}"
    by (simp add: no_predict_def)
  from check_model_assumptions_unsupported [OF h] h show ?thesis by simp
qed

section \<open>The missing-value table\<close>

lemma map2_map_same: "map2 g xs (map f xs) = map (\<lambda>x. g x (f x)) xs"
  by (induction xs) simp_all

lemma count_missing: "length (filter (\<lambda>v. v = None) vs) = count_list vs None"
  by (induction vs) simp_all

lemma count_missing_pos: "0 < count_list vs None \<longleftrightarrow> None \<in> set vs"
  by (induction vs) auto

lemma check_for_missing_values_eq:
  "check_for_missing_values df =
     map (\<lambda>c. (fst c, count_list (snd c) None,
                100 * real (count_list (snd c) None) / real (nrows df)))
         (filter (\<lambda>c. None \<in> set (snd c)) (columns df))"
  by (simp add: check_for_missing_values_def isna_sum_def Let_def map2_map_same
      filter_map comp_def count_missing count_missing_pos mult.commute)

text \<open>
  Claim C10. For every data frame, \<open>check_for_missing_values\<close> returns, in column
  order, exactly the columns with at least one missing cell, each with its number of
  missing cells and with 100 times that number divided by the number of rows; every
  reported number is positive and at most the number of rows; a frame without a missing
  cell gives the empty table.
\<close>

theorem check_for_missing_values_table:
  assumes "wf_frame df"
  shows "check_for_missing_values df =
           map (\<lambda>c. (fst c, count_list (snd c) None,
                      100 * real (count_list (snd c) None) / real (nrows df)))
               (filter (\<lambda>c. None \<in> set (snd c)) (columns df))
         \<and> (\<forall>row \<in> set (check_for_missing_values df).
               0 < fst (snd row) \<and> fst (snd row) \<le> nrows df)
         \<and> ((\<forall>c \<in> set (columns df). None \<notin> set (snd c))
               \<longrightarrow> check_for_missing_values df = [])"
proof (intro conjI)
  show "check_for_missing_values df =
           map (\<lambda>c. (fst c, count_list (snd c) None,
                      100 * real (count_list (snd c) None) / real (nrows df)))
               (filter (\<lambda>c. None \<in> set (snd c)) (columns df))"
    by (rule check_for_missing_values_eq)
next
  show "\<forall>row \<in> set (check_for_missing_values df).
          0 < fst (snd row) \<and> fst (snd row) \<le> nrows df"
  proof
    fix row assume "row \<in> set (check_for_missing_values df)"
    then obtain c where c: "c \<in> set (columns df)" "None \<in> set (snd c)"
      and row: "row = (fst c, count_list (snd c) None,
                       100 * real (count_list (snd c) None) / real (nrows df))"
      by (auto simp: check_for_missing_values_eq)
    from c(1) assms have len: "length (snd c) = nrows df"
      by (auto simp: wf_frame_def list_all_iff)
    have "count_list (snd c) None \<le> length (snd c)"
      by (rule count_le_length)
    moreover from c(2) have "0 < count_list (snd c) None"
      using count_missing_pos [of "snd c"] by simp
    ultimately show "0 < fst (snd row) \<and> fst (snd row) \<le> nrows df"
      using len row by simp
  qed
next
  show "(\<forall>c \<in> set (columns df). None \<notin> set (snd c))
          \<longrightarrow> check_for_missing_values df = []"
    by (simp add: check_for_missing_values_eq filter_empty_conv)
qed

theorem check_for_missing_values_table_witness:
  "wf_frame frame_1
   \<and> check_for_missing_values frame_1 = [(''Age'', 1, 25), (''FSH'', 3, 75)]"
proof -
  have wf: "wf_frame frame_1"
    by (simp add: wf_frame_def frame_1_def)
  from check_for_missing_values_table [OF wf]
  show ?thesis using wf by (simp add: frame_1_def)
qed

end
